theory Spec2Isabelle
  imports Complex_Main "HOL-Library.Word" "HOL-Library.Log_Nat"
begin

unbundle bit_operations_syntax

section \<open>Machine types\<close>

type_synonym u8 = "8 word"
type_synonym u32 = "32 word"

subsection \<open>Single-precision constants\<close>

text \<open>
  \<open>Q_value_mev\<close> is a C \<open>float\<close>. The program never computes with it: it only stores
  the two constants \<open>0.0f\<close> and \<open>0.01857f\<close>. A float is represented by the rational
  number it holds exactly. \<open>f32_literal q\<close> is the value of the constant written as the
  decimal \<open>q\<close> with suffix \<open>f\<close>, read as IEEE-754 binary32 with round to nearest, ties
  to even: 24 significant bits, least exponent \<open>-126\<close> (below it the spacing stays
  \<open>2^-149\<close>), and infinity from \<open>2^128\<close> on. A C floating constant has no sign.
\<close>

datatype f32 = Finite rat | PlusInf

definition pow2 :: "int \<Rightarrow> rat" where
  "pow2 e = (if 0 \<le> e then 2 ^ nat e else 1 / 2 ^ nat (- e))"

text \<open>For \<open>0 < q\<close>, the exponent \<open>e\<close> with \<open>2^e \<le> q < 2^(e+1)\<close>.\<close>

definition f32_exponent :: "rat \<Rightarrow> int" where
  "f32_exponent q = (if 1 \<le> q then bitlen \<lfloor>q\<rfloor> - 1 else - bitlen (\<lceil>1 / q\<rceil> - 1))"

definition f32_literal :: "rat \<Rightarrow> f32" where
  "f32_literal q =
     (if q \<le> 0 then Finite 0
      else let e = max (f32_exponent q) (- 126);
               ulp = pow2 (e - 23);
               n = q / ulp;
               f = \<lfloor>n\<rfloor>;
               r = n - of_int f;
               m = (if r < 1 / 2 then f else if 1 / 2 < r then f + 1
                    else if even f then f else f + 1);
               v = of_int m * ulp
           in if v < pow2 128 then Finite v else PlusInf)"

section \<open>External collaborators\<close>

subsection \<open>The serial trace\<close>

text \<open>
  Modelled from the spec: the serial driver (\<open>drivers/bayesian_serial\<close>) is not among
  the sources. It is "an append-only text output accepting strings, decimal-formatted
  integers, hexadecimal-formatted bytes, and fixed-precision floating-point values", whose
  writes always succeed and return nothing. The output is the list of the calls made, in
  order, each with its arguments; how a number is formatted is the driver's business.
\<close>

datatype serial_item =
    Write string             \<comment> \<open>\<open>bayesian_serial_write(s)\<close>\<close>
  | Write_decimal nat        \<comment> \<open>\<open>bayesian_serial_write_decimal(n)\<close>\<close>
  | Write_hex u8             \<comment> \<open>\<open>bayesian_serial_write_hex(b)\<close>\<close>
  | Write_float f32 nat      \<comment> \<open>\<open>bayesian_serial_write_float(v, precision)\<close>\<close>

type_synonym serial = "serial_item list"

definition bayesian_serial_write :: "string \<Rightarrow> serial \<Rightarrow> serial" where
  "bayesian_serial_write s out = out @ [Write s]"

definition bayesian_serial_write_decimal :: "nat \<Rightarrow> serial \<Rightarrow> serial" where
  "bayesian_serial_write_decimal n out = out @ [Write_decimal n]"

definition bayesian_serial_write_hex :: "u8 \<Rightarrow> serial \<Rightarrow> serial" where
  "bayesian_serial_write_hex b out = out @ [Write_hex b]"

definition bayesian_serial_write_float :: "f32 \<Rightarrow> nat \<Rightarrow> serial \<Rightarrow> serial" where
  "bayesian_serial_write_float v p out = out @ [Write_float v p]"

subsection \<open>The isotope table\<close>

text \<open>
  The header \<open>nuclear_states.h\<close> is not among the sources. The record has the fields the
  code reads. \<open>h7_index\<close> is "an unsigned integer attribute" of a width the sources do not
  give, so it is a natural number; where the code passes it to a \<open>uint8_t\<close> parameter,
  C converts it modulo 256.
\<close>

record NuclearIsotope =
  name :: string
  handedness :: string
  h7_index :: nat

text \<open>
  Modelled from the spec: \<open>nuclear_find_isotope\<close> (\<open>nuclear_states.c\<close>) is not among the
  sources. It is a "read-only lookup by name", "exact string match", where "absence is a
  normal, non-exceptional outcome": the null pointer, here \<open>None\<close>. The table itself is a
  parameter of the model.
\<close>

definition nuclear_find_isotope :: "NuclearIsotope list \<Rightarrow> string \<Rightarrow> NuclearIsotope option" where
  "nuclear_find_isotope tbl n = find (\<lambda>isotope. name isotope = n) tbl"

section \<open>beta\_decay.c\<close>

record BetaDecayResult =
  occurred :: bool
  Q_value_mev :: f32
  fermionic_output :: u8

text \<open>The strings of the trace hold UTF-8; the bytes beyond ASCII are written out.\<close>

definition str_arrow :: string where
  "str_arrow = '' '' @ [CHR 0xE2, CHR 0x86, CHR 0x92] @ '' ''"

definition str_electron :: string where
  "str_electron = ''e'' @ [CHR 0xE2, CHR 0x81, CHR 0xBB]"

definition str_antineutrino :: string where
  "str_antineutrino = [CHR 0xCE, CHR 0xBD, CHR 0xCC, CHR 0x84, CHR 0xE2, CHR 0x82, CHR 0x91]"

definition beta_decay_simulate ::
  "NuclearIsotope list \<Rightarrow> string \<Rightarrow> serial \<Rightarrow> BetaDecayResult \<times> serial" where
  "beta_decay_simulate tbl parent_name out0 =
     (let result = \<lparr>occurred = False, Q_value_mev = f32_literal 0, fermionic_output = 0\<rparr>
      in case nuclear_find_isotope tbl parent_name of
           None \<Rightarrow>
             (result, bayesian_serial_write ''[Beta Decay] Parent isotope not found\<newline>'' out0)
         | Some parent \<Rightarrow>
             let out1 = bayesian_serial_write ''[Beta Decay] Simulating: '' out0;
                 out2 = bayesian_serial_write (name parent) out1;
                 out3 = bayesian_serial_write str_arrow out2
             in if (case name parent of [] \<Rightarrow> False | c # _ \<Rightarrow> c = CHR ''T'') then
                  (case nuclear_find_isotope tbl ''He-3'' of
                     Some daughter \<Rightarrow>
                       let result1 = result\<lparr>occurred := True\<rparr>;
                           result2 = result1\<lparr>Q_value_mev := f32_literal (1857 / 100000)\<rparr>;
                           result3 = result2\<lparr>fermionic_output := 3\<rparr>;
                           out4 = bayesian_serial_write (name daughter) out3;
                           out5 = bayesian_serial_write
                                    ('' + '' @ str_electron @ '' + '' @ str_antineutrino @ ''\<newline>'') out4;
                           out6 = bayesian_serial_write ''[Beta Decay] Q = '' out5;
                           out7 = bayesian_serial_write_float (Q_value_mev result3) 5 out6;
                           out8 = bayesian_serial_write '' MeV\<newline>'' out7
                       in (result3, out8)
                   | None \<Rightarrow> (result, out3))
                else (result, bayesian_serial_write ''STABLE (no decay)\<newline>'' out3))"

text \<open>The parameter \<open>fermionic_output\<close> is written \<open>fermionic_out\<close>: the record field has its name.\<close>

definition beta_decay_compute_chirality :: "u8 \<Rightarrow> serial \<Rightarrow> serial" where
  "beta_decay_compute_chirality fermionic_out out0 =
     (let out1 = bayesian_serial_write ''[Chirality] Fermionic output: '' out0;
          out2 = bayesian_serial_write_hex fermionic_out out1;
          out3 = bayesian_serial_write ''\<newline>'' out2;
          has_electron = (fermionic_out AND 1 \<noteq> 0);
          has_antineutrino = (fermionic_out AND 2 \<noteq> 0);
          out4 = bayesian_serial_write (''[Chirality] '' @ str_electron @ '': '') out3;
          out5 = bayesian_serial_write (if has_electron then ''YES'' else ''NO'') out4;
          out6 = bayesian_serial_write (''\<newline>[Chirality] '' @ str_antineutrino @ '': '') out5;
          out7 = bayesian_serial_write (if has_antineutrino then ''YES'' else ''NO'') out6;
          out8 = bayesian_serial_write ''\<newline>'' out7
      in if has_electron \<and> has_antineutrino then
           bayesian_serial_write ''[Chirality] Handedness: LEFT-HANDED\<newline>'' out8
         else if has_electron \<and> \<not> has_antineutrino then
           bayesian_serial_write ''[Chirality] Handedness: RIGHT-HANDED\<newline>'' out8
         else
           bayesian_serial_write ''[Chirality] Handedness: CENTER\<newline>'' out8)"

section \<open>simon\_oracle.c\<close>

text \<open>
  The two file-level variables of the oracle, and the serial line the trace goes to.
  \<open>query_count\<close> is a \<open>uint32_t\<close>: \<open>query_count++\<close> wraps at \<open>2^32\<close>.
\<close>

record world =
  oracle_secret :: u8
  query_count :: u32
  serial_line :: serial

definition trace :: "(serial \<Rightarrow> serial) \<Rightarrow> world \<Rightarrow> world" where
  "trace wr w = w\<lparr>serial_line := wr (serial_line w)\<rparr>"

definition simon_oracle_init :: "u8 \<Rightarrow> world \<Rightarrow> world" where
  "simon_oracle_init secret w =
     (let w1 = w\<lparr>oracle_secret := secret\<rparr>;
          w2 = w1\<lparr>query_count := 0\<rparr>;
          w3 = trace (bayesian_serial_write ''[Simon Oracle] Initialized with secret: '') w2;
          w4 = trace (bayesian_serial_write_decimal (unat secret)) w3
      in trace (bayesian_serial_write ''\<newline>'') w4)"

definition simon_oracle_query :: "u8 \<Rightarrow> world \<Rightarrow> u8 \<times> world" where
  "simon_oracle_query x w =
     (let w1 = w\<lparr>query_count := query_count w + 1\<rparr>;
          result = x XOR oracle_secret w1;
          w2 = trace (bayesian_serial_write ''[Oracle] Query '') w1;
          w3 = trace (bayesian_serial_write_decimal (unat (query_count w2))) w2;
          w4 = trace (bayesian_serial_write '': f('') w3;
          w5 = trace (bayesian_serial_write_decimal (unat x)) w4;
          w6 = trace (bayesian_serial_write '') = '') w5;
          w7 = trace (bayesian_serial_write_decimal (unat result)) w6;
          w8 = trace (bayesian_serial_write ''\<newline>'') w7
      in (result, w8))"

text \<open>For the statements below: what one query writes, given the counter after its increment, its input and its answer.\<close>

definition query_record :: "u32 \<Rightarrow> u8 \<Rightarrow> u8 \<Rightarrow> serial" where
  "query_record k x fx =
     [Write ''[Oracle] Query '', Write_decimal (unat k), Write '': f('', Write_decimal (unat x),
      Write '') = '', Write_decimal (unat fx), Write ''\<newline>'']"

definition simon_oracle_get_query_count :: "world \<Rightarrow> u32 \<times> world" where
  "simon_oracle_get_query_count w = (query_count w, w)"

text \<open>
  The type of \<open>queries\<close> is declared in \<open>simon_oracle.h\<close>, which is not among the sources;
  the code only counts it up from zero, three times.
\<close>

record SimonResult =
  queries :: nat
  secret_found :: bool
  recovered_secret :: u8

text \<open>The loop \<open>for (uint8_t i = 0; i < 3; i++)\<close>; the value \<open>fx\<close> of the query is not used.\<close>

function simon_run_loop :: "u8 \<Rightarrow> SimonResult \<Rightarrow> world \<Rightarrow> SimonResult \<times> world" where
  "simon_run_loop i result w =
     (if i < 3 then
        let x = i;
            (fx, w1) = simon_oracle_query x w;
            result1 = result\<lparr>queries := queries result + 1\<rparr>
        in simon_run_loop (i + 1) result1 w1
      else (result, w))"
  by pat_completeness auto
termination
proof (relation "measure (\<lambda>(i, result, w). 3 - unat i)")
  show "wf (measure (\<lambda>(i, result, w). 3 - unat i))"
    by simp
next
  fix i :: u8 and result :: SimonResult and w :: world and x :: u8
    and y :: "u8 \<times> world" and fx :: u8 and w1 :: world and result1 :: SimonResult
  assume "i < 3"
  then have "unat i < 3"
    by (simp add: word_less_nat_alt)
  then have "unat (i + 1) = unat i + 1"
    by (simp add: unat_word_ariths)
  with \<open>unat i < 3\<close>
  show "((i + 1, result1, w1), (i, result, w)) \<in> measure (\<lambda>(i, result, w). 3 - unat i)"
    by simp
qed

definition simon_run_algorithm :: "u8 \<Rightarrow> world \<Rightarrow> SimonResult \<times> world" where
  "simon_run_algorithm n_qubits w =
     (let result = \<lparr>queries = 0, secret_found = False, recovered_secret = 0\<rparr>;
          w1 = trace (bayesian_serial_write ''[Simon] Starting algorithm with '') w;
          w2 = trace (bayesian_serial_write_decimal (unat n_qubits)) w1;
          w3 = trace (bayesian_serial_write '' qubits\<newline>'') w2;
          (result1, w4) = simon_run_loop 0 result w3;
          result2 = result1\<lparr>recovered_secret := oracle_secret w4\<rparr>;
          result3 = result2\<lparr>secret_found := True\<rparr>;
          w5 = trace (bayesian_serial_write ''[Simon] Algorithm complete. Secret: '') w4;
          w6 = trace (bayesian_serial_write_decimal (unat (recovered_secret result3))) w5;
          w7 = trace (bayesian_serial_write ''\<newline>'') w6
      in (result3, w7))"

definition simon_nuclear_search :: "NuclearIsotope list \<Rightarrow> string \<Rightarrow> world \<Rightarrow> world" where
  "simon_nuclear_search tbl target_isotope w =
     (let w1 = trace (bayesian_serial_write ''[Simon Nuclear] Searching for: '') w;
          w2 = trace (bayesian_serial_write target_isotope) w1;
          w3 = trace (bayesian_serial_write ''\<newline>'') w2
      in case nuclear_find_isotope tbl target_isotope of
           None \<Rightarrow> trace (bayesian_serial_write ''[Simon Nuclear] Isotope not found\<newline>'') w3
         | Some isotope \<Rightarrow>
             let w4 = trace (bayesian_serial_write ''[Simon Nuclear] Found: '') w3;
                 w5 = trace (bayesian_serial_write (name isotope)) w4;
                 w6 = trace (bayesian_serial_write ''\<newline>'') w5;
                 w7 = trace (bayesian_serial_write ''[Simon Nuclear] H7 index: '') w6;
                 w8 = trace (bayesian_serial_write_decimal (h7_index isotope)) w7;
                 w9 = trace (bayesian_serial_write ''\<newline>'') w8;
                 w10 = trace (bayesian_serial_write ''[Simon Nuclear] Chirality: '') w9;
                 w11 = trace (bayesian_serial_write (handedness isotope)) w10;
                 w12 = trace (bayesian_serial_write ''\<newline>'') w11;
                 w13 = simon_oracle_init (of_nat (h7_index isotope)) w12;
                 (result, w14) = simon_run_algorithm 3 w13
             in trace (bayesian_serial_write ''[Simon Nuclear] Search complete\<newline>'') w14)"

section \<open>Properties of the chirality report\<close>

lemmas serial_writes =
  bayesian_serial_write_def bayesian_serial_write_decimal_def
  bayesian_serial_write_hex_def bayesian_serial_write_float_def

lemma chirality_last_cases:
  "last (beta_decay_compute_chirality m out0) =
     (if m AND 1 \<noteq> 0 \<and> m AND 2 \<noteq> 0 then Write ''[Chirality] Handedness: LEFT-HANDED\<newline>''
      else if m AND 1 \<noteq> 0 then Write ''[Chirality] Handedness: RIGHT-HANDED\<newline>''
      else Write ''[Chirality] Handedness: CENTER\<newline>'')"
  by (simp add: beta_decay_compute_chirality_def serial_writes Let_def)

text \<open>
  C4. The handedness line is the last thing the report writes. For the four values of the
  2-bit mask it is: LEFT-HANDED for \<open>0b11\<close>, RIGHT-HANDED for \<open>0b01\<close>, CENTER for \<open>0b10\<close>
  and for \<open>0b00\<close>; whatever was on the serial line before is kept.
\<close>

theorem chirality_classification:
  "last (beta_decay_compute_chirality 3 out0) = Write ''[Chirality] Handedness: LEFT-HANDED\<newline>''
   \<and> last (beta_decay_compute_chirality 1 out0) = Write ''[Chirality] Handedness: RIGHT-HANDED\<newline>''
   \<and> last (beta_decay_compute_chirality 2 out0) = Write ''[Chirality] Handedness: CENTER\<newline>''
   \<and> last (beta_decay_compute_chirality 0 out0) = Write ''[Chirality] Handedness: CENTER\<newline>''"
  by (simp add: chirality_last_cases)

text \<open>
  C10. Only the two low bits of the byte count. After the three writes that echo the
  argument in hexadecimal, the report of any byte \<open>m\<close> is the report of \<open>m AND 0b11\<close>, item
  for item, and so is its handedness line; \<open>0xFF\<close> is reported LEFT-HANDED. No value of
  the byte is refused: the function has no other outcome than the trace.
\<close>

theorem chirality_low_two_bits:
  "drop (length out0 + 3) (beta_decay_compute_chirality m out0) =
     drop (length out0 + 3) (beta_decay_compute_chirality (m AND 3) out0)
   \<and> last (beta_decay_compute_chirality m out0) =
       last (beta_decay_compute_chirality (m AND 3) out0)
   \<and> last (beta_decay_compute_chirality 0xFF out0) =
       Write ''[Chirality] Handedness: LEFT-HANDED\<newline>''"
proof -
  have b0: "(m AND 3) AND 1 = m AND 1"
    by (simp add: and.assoc)
  have b1: "(m AND 3) AND 2 = m AND 2"
    by (simp add: and.assoc)
  have "drop (length out0 + 3) (beta_decay_compute_chirality m out0) =
          drop (length out0 + 3) (beta_decay_compute_chirality (m AND 3) out0)"
    by (simp add: beta_decay_compute_chirality_def serial_writes Let_def b0 b1)
  moreover have "last (beta_decay_compute_chirality m out0) =
                   last (beta_decay_compute_chirality (m AND 3) out0)"
    by (simp only: chirality_last_cases b0 b1)
  moreover have "last (beta_decay_compute_chirality 0xFF out0) =
                   Write ''[Chirality] Handedness: LEFT-HANDED\<newline>''"
    by (simp add: chirality_last_cases)
  ultimately show ?thesis by simp
qed

section \<open>Properties of the decay simulation\<close>

lemma nuclear_find_isotope_name:
  "nuclear_find_isotope tbl n = Some isotope \<Longrightarrow> name isotope = n"
  by (auto simp: nuclear_find_isotope_def find_Some_iff)

lemma f32_literal_zero: "f32_literal 0 = Finite 0"
  by (simp add: f32_literal_def)

text \<open>
  The constant \<open>0.01857f\<close> is the binary32 number \<open>9969693 / 2^29\<close>: the nearest one to
  the decimal, about \<open>3 / 10^10\<close> above it.
\<close>

lemma f32_literal_Q: "f32_literal (1857 / 100000) = Finite (9969693 / 2 ^ 29)"
  by code_simp

lemma f32_literal_Q_error:
  "(0::rat) < 9969693 / 2 ^ 29 - 1857 / 100000 \<and> (9969693 / 2 ^ 29 - 1857 / 100000 :: rat) < 1 / 10 ^ 9"
  by simp

text \<open>
  C1. When the parent name begins with \<open>T\<close> and is matched in the table, and \<open>He-3\<close> is in
  the table too, the simulation returns occurred = true, the energy \<open>0.01857f\<close> and the
  mask \<open>0b11\<close>.
\<close>

theorem simulate_tritium_decays:
  assumes "nuclear_find_isotope tbl (CHR ''T'' # rest) = Some parent"
    and "nuclear_find_isotope tbl ''He-3'' = Some daughter"
  shows "fst (beta_decay_simulate tbl (CHR ''T'' # rest) out0) =
           \<lparr>occurred = True, Q_value_mev = f32_literal (1857 / 100000), fermionic_output = 3\<rparr>"
proof -
  have "name parent = CHR ''T'' # rest"
    using assms(1) by (rule nuclear_find_isotope_name)
  with assms show ?thesis
    by (simp add: beta_decay_simulate_def Let_def)
qed

theorem simulate_tritium_decays_witness:
  "nuclear_find_isotope
     [\<lparr>name = ''T'', handedness = ''LEFT'', h7_index = 3\<rparr>,
      \<lparr>name = ''He-3'', handedness = ''RIGHT'', h7_index = 5\<rparr>] ''T'' =
     Some \<lparr>name = ''T'', handedness = ''LEFT'', h7_index = 3\<rparr>
   \<and> nuclear_find_isotope
     [\<lparr>name = ''T'', handedness = ''LEFT'', h7_index = 3\<rparr>,
      \<lparr>name = ''He-3'', handedness = ''RIGHT'', h7_index = 5\<rparr>] ''He-3'' =
     Some \<lparr>name = ''He-3'', handedness = ''RIGHT'', h7_index = 5\<rparr>
   \<and> fst (beta_decay_simulate
     [\<lparr>name = ''T'', handedness = ''LEFT'', h7_index = 3\<rparr>,
      \<lparr>name = ''He-3'', handedness = ''RIGHT'', h7_index = 5\<rparr>] ''T'' []) =
     \<lparr>occurred = True, Q_value_mev = f32_literal (1857 / 100000), fermionic_output = 3\<rparr>"
proof -
  let ?tbl = "[\<lparr>name = ''T'', handedness = ''LEFT'', h7_index = 3\<rparr>,
               \<lparr>name = ''He-3'', handedness = ''RIGHT'', h7_index = 5\<rparr>]"
  have p: "nuclear_find_isotope ?tbl (CHR ''T'' # []) =
             Some \<lparr>name = ''T'', handedness = ''LEFT'', h7_index = 3\<rparr>"
    by (simp add: nuclear_find_isotope_def)
  have d: "nuclear_find_isotope ?tbl ''He-3'' =
             Some \<lparr>name = ''He-3'', handedness = ''RIGHT'', h7_index = 5\<rparr>"
    by (simp add: nuclear_find_isotope_def)
  show ?thesis
    using p d simulate_tritium_decays [OF p d, of "[]"] by simp
qed

text \<open>
  C5. When the parent name begins with \<open>T\<close> and \<open>He-3\<close> is not in the table, the result is
  the zeroed one: occurred = false, energy 0, mask 0. This holds whether or not the parent
  itself is in the table.
\<close>

theorem simulate_daughter_missing:
  assumes "nuclear_find_isotope tbl ''He-3'' = None"
  shows "fst (beta_decay_simulate tbl (CHR ''T'' # rest) out0) =
           \<lparr>occurred = False, Q_value_mev = Finite 0, fermionic_output = 0\<rparr>"
proof (cases "nuclear_find_isotope tbl (CHR ''T'' # rest)")
  case None
  then show ?thesis
    by (simp add: beta_decay_simulate_def Let_def f32_literal_zero)
next
  case (Some parent)
  then have "name parent = CHR ''T'' # rest"
    by (rule nuclear_find_isotope_name)
  with Some assms show ?thesis
    by (simp add: beta_decay_simulate_def Let_def f32_literal_zero)
qed

theorem simulate_daughter_missing_witness:
  "nuclear_find_isotope [\<lparr>name = ''T'', handedness = ''LEFT'', h7_index = 3\<rparr>] ''He-3'' = None
   \<and> fst (beta_decay_simulate [\<lparr>name = ''T'', handedness = ''LEFT'', h7_index = 3\<rparr>] ''T'' []) =
       \<lparr>occurred = False, Q_value_mev = Finite 0, fermionic_output = 0\<rparr>"
proof -
  have d: "nuclear_find_isotope [\<lparr>name = ''T'', handedness = ''LEFT'', h7_index = 3\<rparr>] ''He-3'' = None"
    by (simp add: nuclear_find_isotope_def)
  show ?thesis
    using d simulate_daughter_missing [OF d, of "[]" "[]"] by simp
qed

text \<open>
  C6. When the parent name is not in the table, or the entry found for it has a name that
  does not begin with \<open>T\<close>, the simulation returns the zeroed result: occurred = false,
  energy 0, mask 0. It returns in every case (the function is total and has no error
  outcome); the only other effect is the trace, "not found" in the first case and
  "STABLE" in the second.
\<close>

theorem simulate_no_decay:
  assumes "nuclear_find_isotope tbl parent_name = None
           \<or> (\<exists>parent. nuclear_find_isotope tbl parent_name = Some parent
                \<and> (\<forall>rest. name parent \<noteq> CHR ''T'' # rest))"
  shows "beta_decay_simulate tbl parent_name out0 =
           (\<lparr>occurred = False, Q_value_mev = Finite 0, fermionic_output = 0\<rparr>,
            out0 @ (case nuclear_find_isotope tbl parent_name of
                      None \<Rightarrow> [Write ''[Beta Decay] Parent isotope not found\<newline>'']
                    | Some parent \<Rightarrow>
                        [Write ''[Beta Decay] Simulating: '', Write (name parent),
                         Write str_arrow, Write ''STABLE (no decay)\<newline>'']))"
  using assms
proof
  assume "nuclear_find_isotope tbl parent_name = None"
  then show ?thesis
    by (simp add: beta_decay_simulate_def Let_def f32_literal_zero serial_writes)
next
  assume "\<exists>parent. nuclear_find_isotope tbl parent_name = Some parent
            \<and> (\<forall>rest. name parent \<noteq> CHR ''T'' # rest)"
  then obtain parent where found: "nuclear_find_isotope tbl parent_name = Some parent"
    and no_T: "\<forall>rest. name parent \<noteq> CHR ''T'' # rest"
    by blast
  from no_T have "\<not> (case name parent of [] \<Rightarrow> False | c # _ \<Rightarrow> c = CHR ''T'')"
    by (cases "name parent") auto
  with found show ?thesis
    by (simp add: beta_decay_simulate_def Let_def f32_literal_zero serial_writes)
qed

theorem simulate_no_decay_witness:
  "nuclear_find_isotope [\<lparr>name = ''He-3'', handedness = ''RIGHT'', h7_index = 5\<rparr>] ''U-235'' = None
   \<and> beta_decay_simulate [\<lparr>name = ''He-3'', handedness = ''RIGHT'', h7_index = 5\<rparr>] ''U-235'' [] =
       (\<lparr>occurred = False, Q_value_mev = Finite 0, fermionic_output = 0\<rparr>,
        [Write ''[Beta Decay] Parent isotope not found\<newline>''])
   \<and> nuclear_find_isotope [\<lparr>name = ''He-3'', handedness = ''RIGHT'', h7_index = 5\<rparr>] ''He-3'' =
       Some \<lparr>name = ''He-3'', handedness = ''RIGHT'', h7_index = 5\<rparr>
   \<and> beta_decay_simulate [\<lparr>name = ''He-3'', handedness = ''RIGHT'', h7_index = 5\<rparr>] ''He-3'' [] =
       (\<lparr>occurred = False, Q_value_mev = Finite 0, fermionic_output = 0\<rparr>,
        [Write ''[Beta Decay] Simulating: '', Write ''He-3'', Write str_arrow,
         Write ''STABLE (no decay)\<newline>''])"
proof -
  let ?tbl = "[\<lparr>name = ''He-3'', handedness = ''RIGHT'', h7_index = 5\<rparr>]"
  have absent: "nuclear_find_isotope ?tbl ''U-235'' = None"
    by (simp add: nuclear_find_isotope_def)
  have stable: "nuclear_find_isotope ?tbl ''He-3'' =
                  Some \<lparr>name = ''He-3'', handedness = ''RIGHT'', h7_index = 5\<rparr>"
    by (simp add: nuclear_find_isotope_def)
  have h1: "nuclear_find_isotope ?tbl ''U-235'' = None
            \<or> (\<exists>parent. nuclear_find_isotope ?tbl ''U-235'' = Some parent
                 \<and> (\<forall>rest. name parent \<noteq> CHR ''T'' # rest))"
    using absent by simp
  have h2: "nuclear_find_isotope ?tbl ''He-3'' = None
            \<or> (\<exists>parent. nuclear_find_isotope ?tbl ''He-3'' = Some parent
                 \<and> (\<forall>rest. name parent \<noteq> CHR ''T'' # rest))"
    using stable by simp
  show ?thesis
    using absent stable simulate_no_decay [OF h1, of "[]"] simulate_no_decay [OF h2, of "[]"]
    by simp
qed

section \<open>Properties of the oracle\<close>

lemma trace_fields [simp]:
  "oracle_secret (trace wr w) = oracle_secret w"
  "query_count (trace wr w) = query_count w"
  "serial_line (trace wr w) = wr (serial_line w)"
  by (simp_all add: trace_def)

lemma init_fields:
  "oracle_secret (simon_oracle_init secret w) = secret"
  "query_count (simon_oracle_init secret w) = 0"
  by (simp_all add: simon_oracle_init_def Let_def)

lemma query_result: "fst (simon_oracle_query x w) = x XOR oracle_secret w"
  by (simp add: simon_oracle_query_def Let_def)

lemma query_fields:
  "oracle_secret (snd (simon_oracle_query x w)) = oracle_secret w"
  "query_count (snd (simon_oracle_query x w)) = query_count w + 1"
  by (simp_all add: simon_oracle_query_def Let_def)

text \<open>
  C3. After \<open>simon_oracle_init s\<close> a query of \<open>x\<close> returns \<open>x XOR s\<close>; a query does not
  change the secret; and querying the answer of a query, in the state that query left,
  gives back \<open>x\<close>.
\<close>

theorem oracle_query_xor_involution:
  "fst (simon_oracle_query x (simon_oracle_init s w)) = x XOR s
   \<and> oracle_secret (snd (simon_oracle_query x w)) = oracle_secret w
   \<and> fst (simon_oracle_query (fst (simon_oracle_query x w)) (snd (simon_oracle_query x w))) = x"
  by (simp add: query_result query_fields init_fields xor.assoc)

text \<open>A run of queries, one input after the other, counts its length on top of the counter.\<close>

lemma query_count_after_queries:
  "unat (query_count (fold (\<lambda>x v. snd (simon_oracle_query x v)) xs w)) =
     (unat (query_count w) + length xs) mod 2 ^ 32"
proof (induction xs arbitrary: w)
  case Nil
  have "unat (query_count w) < 2 ^ 32"
    using unsigned_less [of "query_count w"] by simp
  then show ?case by simp
next
  case (Cons x xs)
  have "unat (query_count (fold (\<lambda>x v. snd (simon_oracle_query x v)) (x # xs) w)) =
          (unat (query_count (snd (simon_oracle_query x w))) + length xs) mod 2 ^ 32"
    by (simp add: Cons.IH)
  also have "\<dots> = ((unat (query_count w) + 1) mod 2 ^ 32 + length xs) mod 2 ^ 32"
    by (simp add: query_fields unat_word_ariths)
  also have "\<dots> = (unat (query_count w) + length (x # xs)) mod 2 ^ 32"
    by (simp add: mod_add_left_eq)
  finally show ?case .
qed

text \<open>
  C7. Right after \<open>simon_oracle_init\<close> the counter reads 0. Each query adds 1 to what
  \<open>simon_oracle_get_query_count\<close> returns; the counter is a \<open>uint32_t\<close>, so this is
  addition modulo \<open>2^32\<close>, and after the initialisation and any run of queries it reads
  the number of queries made, modulo \<open>2^32\<close>. Reading the counter leaves the state as it
  was.
\<close>

theorem query_count_init_and_step:
  "fst (simon_oracle_get_query_count (simon_oracle_init secret w)) = 0
   \<and> fst (simon_oracle_get_query_count (snd (simon_oracle_query x w))) =
       fst (simon_oracle_get_query_count w) + 1
   \<and> unat (fst (simon_oracle_get_query_count (snd (simon_oracle_query x w)))) =
       (unat (fst (simon_oracle_get_query_count w)) + 1) mod 2 ^ 32
   \<and> unat (fst (simon_oracle_get_query_count
         (fold (\<lambda>x v. snd (simon_oracle_query x v)) xs (simon_oracle_init secret w)))) =
       length xs mod 2 ^ 32
   \<and> snd (simon_oracle_get_query_count w) = w"
  by (simp add: simon_oracle_get_query_count_def query_fields init_fields unat_word_ariths
      query_count_after_queries)

section \<open>Properties of the algorithm runner\<close>

text \<open>The loop, started at \<open>i = 0\<close>, is three queries in a row, with inputs 0, 1 and 2.\<close>

lemma simon_run_loop_unrolled:
  "simon_run_loop 0 result w =
     (result\<lparr>queries := queries result + 3\<rparr>,
      snd (simon_oracle_query 2 (snd (simon_oracle_query 1 (snd (simon_oracle_query 0 w))))))"
proof -
  have stop: "simon_run_loop 3 r v = (r, v)" for r v
    by (subst simon_run_loop.simps) simp
  have third: "simon_run_loop 2 r v =
                 (r\<lparr>queries := queries r + 1\<rparr>, snd (simon_oracle_query 2 v))" for r v
    by (subst simon_run_loop.simps) (simp add: Let_def case_prod_beta stop)
  have second: "simon_run_loop 1 r v =
                  (r\<lparr>queries := queries r + 2\<rparr>,
                   snd (simon_oracle_query 2 (snd (simon_oracle_query 1 v))))" for r v
    by (subst simon_run_loop.simps) (simp add: Let_def case_prod_beta third)
  show ?thesis
    by (subst simon_run_loop.simps) (simp add: Let_def case_prod_beta second)
qed

lemma query_serial:
  "serial_line (snd (simon_oracle_query x w)) =
     serial_line w @ query_record (query_count w + 1) x (x XOR oracle_secret w)"
  by (simp add: simon_oracle_query_def Let_def query_record_def serial_writes)

lemma run_algorithm_result:
  "fst (simon_run_algorithm n_qubits w) =
     \<lparr>queries = 3, secret_found = True, recovered_secret = oracle_secret w\<rparr>"
  by (simp add: simon_run_algorithm_def Let_def case_prod_beta simon_run_loop_unrolled
      query_fields)

lemma run_algorithm_fields:
  "oracle_secret (snd (simon_run_algorithm n_qubits w)) = oracle_secret w"
  "query_count (snd (simon_run_algorithm n_qubits w)) = query_count w + 3"
  by (simp_all add: simon_run_algorithm_def Let_def case_prod_beta simon_run_loop_unrolled
      query_fields)

lemma run_algorithm_serial:
  "serial_line (snd (simon_run_algorithm n_qubits w)) =
     serial_line w
     @ [Write ''[Simon] Starting algorithm with '', Write_decimal (unat n_qubits),
        Write '' qubits\<newline>'']
     @ query_record (query_count w + 1) 0 (0 XOR oracle_secret w)
     @ query_record (query_count w + 2) 1 (1 XOR oracle_secret w)
     @ query_record (query_count w + 3) 2 (2 XOR oracle_secret w)
     @ [Write ''[Simon] Algorithm complete. Secret: '', Write_decimal (unat (oracle_secret w)),
        Write ''\<newline>'']"
  by (simp add: simon_run_algorithm_def Let_def case_prod_beta simon_run_loop_unrolled
      query_fields query_serial serial_writes add.assoc)

text \<open>
  C2. Whatever the qubit count and the state, hence whatever the queries answer, the run
  returns queries = 3, secret\_found = true and the secret the oracle holds. It makes three
  oracle queries and no more: the counter goes up by 3, the secret stays, and the trace it
  adds is its opening line, the records of the queries of 0, 1 and 2 in this order, and
  its closing line.
\<close>

theorem run_algorithm_three_queries:
  "fst (simon_run_algorithm n_qubits w) =
     \<lparr>queries = 3, secret_found = True, recovered_secret = oracle_secret w\<rparr>
   \<and> query_count (snd (simon_run_algorithm n_qubits w)) = query_count w + 3
   \<and> oracle_secret (snd (simon_run_algorithm n_qubits w)) = oracle_secret w
   \<and> serial_line (snd (simon_run_algorithm n_qubits w)) =
       serial_line w
       @ [Write ''[Simon] Starting algorithm with '', Write_decimal (unat n_qubits),
          Write '' qubits\<newline>'']
       @ query_record (query_count w + 1) 0 (0 XOR oracle_secret w)
       @ query_record (query_count w + 2) 1 (1 XOR oracle_secret w)
       @ query_record (query_count w + 3) 2 (2 XOR oracle_secret w)
       @ [Write ''[Simon] Algorithm complete. Secret: '', Write_decimal (unat (oracle_secret w)),
          Write ''\<newline>'']"
  by (simp only: run_algorithm_result run_algorithm_fields run_algorithm_serial simp_thms)

section \<open>Properties of the nuclear search\<close>

text \<open>
  C8. When the name is not in the table, the search changes neither the secret nor the
  counter, so it makes no query: all it does is write its opening line and the "not
  found" line.
\<close>

theorem nuclear_search_unknown_name:
  assumes "nuclear_find_isotope tbl target_isotope = None"
  shows "simon_nuclear_search tbl target_isotope w =
           w\<lparr>serial_line := serial_line w
               @ [Write ''[Simon Nuclear] Searching for: '', Write target_isotope,
                  Write ''\<newline>'', Write ''[Simon Nuclear] Isotope not found\<newline>'']\<rparr>
         \<and> oracle_secret (simon_nuclear_search tbl target_isotope w) = oracle_secret w
         \<and> query_count (simon_nuclear_search tbl target_isotope w) = query_count w"
  using assms by (simp add: simon_nuclear_search_def Let_def trace_def serial_writes)

theorem nuclear_search_unknown_name_witness:
  "nuclear_find_isotope [\<lparr>name = ''T'', handedness = ''LEFT'', h7_index = 3\<rparr>] ''U-235'' = None
   \<and> simon_nuclear_search [\<lparr>name = ''T'', handedness = ''LEFT'', h7_index = 3\<rparr>] ''U-235''
         \<lparr>oracle_secret = 5, query_count = 7, serial_line = []\<rparr> =
       \<lparr>oracle_secret = 5, query_count = 7,
        serial_line = [Write ''[Simon Nuclear] Searching for: '', Write ''U-235'',
                       Write ''\<newline>'', Write ''[Simon Nuclear] Isotope not found\<newline>'']\<rparr>"
proof -
  have absent:
    "nuclear_find_isotope [\<lparr>name = ''T'', handedness = ''LEFT'', h7_index = 3\<rparr>] ''U-235'' = None"
    by (simp add: nuclear_find_isotope_def)
  show ?thesis
    using absent
      nuclear_search_unknown_name [OF absent,
        of "\<lparr>oracle_secret = 5, query_count = 7, serial_line = []\<rparr>"]
    by simp
qed

text \<open>
  C9. When the name is in the table, the search writes what it found, initialises the
  oracle with the entry's \<open>h7_index\<close> (converted to the byte the parameter is), runs the
  algorithm with 3 qubits and writes its closing line. On return the counter is 3 and the
  secret is that byte.
\<close>

theorem nuclear_search_known_name:
  assumes "nuclear_find_isotope tbl target_isotope = Some isotope"
  shows "simon_nuclear_search tbl target_isotope w =
           trace (bayesian_serial_write ''[Simon Nuclear] Search complete\<newline>'')
             (snd (simon_run_algorithm 3
               (simon_oracle_init (of_nat (h7_index isotope))
                 (w\<lparr>serial_line := serial_line w
                     @ [Write ''[Simon Nuclear] Searching for: '', Write target_isotope,
                        Write ''\<newline>'',
                        Write ''[Simon Nuclear] Found: '', Write (name isotope),
                        Write ''\<newline>'',
                        Write ''[Simon Nuclear] H7 index: '', Write_decimal (h7_index isotope),
                        Write ''\<newline>'',
                        Write ''[Simon Nuclear] Chirality: '', Write (handedness isotope),
                        Write ''\<newline>'']\<rparr>))))
         \<and> query_count (simon_nuclear_search tbl target_isotope w) = 3
         \<and> oracle_secret (simon_nuclear_search tbl target_isotope w) = of_nat (h7_index isotope)
         \<and> unat (oracle_secret (simon_nuclear_search tbl target_isotope w)) =
             h7_index isotope mod 256"
proof -
  let ?found = "w\<lparr>serial_line := serial_line w
                   @ [Write ''[Simon Nuclear] Searching for: '', Write target_isotope,
                      Write ''\<newline>'',
                      Write ''[Simon Nuclear] Found: '', Write (name isotope),
                      Write ''\<newline>'',
                      Write ''[Simon Nuclear] H7 index: '', Write_decimal (h7_index isotope),
                      Write ''\<newline>'',
                      Write ''[Simon Nuclear] Chirality: '', Write (handedness isotope),
                      Write ''\<newline>'']\<rparr>"
  have run: "simon_nuclear_search tbl target_isotope w =
               trace (bayesian_serial_write ''[Simon Nuclear] Search complete\<newline>'')
                 (snd (simon_run_algorithm 3
                   (simon_oracle_init (of_nat (h7_index isotope)) ?found)))"
    using assms
    by (simp add: simon_nuclear_search_def Let_def case_prod_beta trace_def serial_writes)
  have count: "query_count (simon_nuclear_search tbl target_isotope w) = 3"
    by (simp add: run run_algorithm_fields init_fields)
  have secret: "oracle_secret (simon_nuclear_search tbl target_isotope w) =
                  of_nat (h7_index isotope)"
    by (simp add: run run_algorithm_fields init_fields)
  have "unat (of_nat (h7_index isotope) :: u8) = h7_index isotope mod 256"
    by (simp add: unat_of_nat)
  with run count secret show ?thesis
    by (simp only: simp_thms)
qed

theorem nuclear_search_known_name_witness:
  "nuclear_find_isotope [\<lparr>name = ''T'', handedness = ''LEFT'', h7_index = 5\<rparr>] ''T'' =
     Some \<lparr>name = ''T'', handedness = ''LEFT'', h7_index = 5\<rparr>
   \<and> query_count (simon_nuclear_search [\<lparr>name = ''T'', handedness = ''LEFT'', h7_index = 5\<rparr>] ''T''
        \<lparr>oracle_secret = 9, query_count = 7, serial_line = []\<rparr>) = 3
   \<and> oracle_secret (simon_nuclear_search [\<lparr>name = ''T'', handedness = ''LEFT'', h7_index = 5\<rparr>] ''T''
        \<lparr>oracle_secret = 9, query_count = 7, serial_line = []\<rparr>) = 5"
proof -
  have found:
    "nuclear_find_isotope [\<lparr>name = ''T'', handedness = ''LEFT'', h7_index = 5\<rparr>] ''T'' =
       Some \<lparr>name = ''T'', handedness = ''LEFT'', h7_index = 5\<rparr>"
    by (simp add: nuclear_find_isotope_def)
  note known = nuclear_search_known_name [OF found,
    of "\<lparr>oracle_secret = 9, query_count = 7, serial_line = []\<rparr>"]
  show ?thesis
    using found known [THEN conjunct2, THEN conjunct1]
      known [THEN conjunct2, THEN conjunct2, THEN conjunct1]
    by simp
qed

end
